theory Spec2Isabelle
  imports Complex_Main "HOL-Library.AList"
begin

section \<open>The JavaScript containers used by the source\<close>

text \<open>
  A JavaScript \<^verbatim>\<open>Map\<close> iterates in insertion order: \<^verbatim>\<open>set\<close> on a key that is present
  replaces the value where it stands, \<^verbatim>\<open>set\<close> on a new key appends, \<^verbatim>\<open>delete\<close> removes the
  entry and reports whether there was one.  An association list with
  \<^const>\<open>AList.update\<close> and \<^const>\<open>AList.delete\<close> behaves exactly so, and \<^const>\<open>map_of\<close> is
  \<^verbatim>\<open>get\<close>.  A \<^verbatim>\<open>Set\<close> is a list without repetitions, in insertion order.
\<close>

definition Map_has :: "'k \<Rightarrow> ('k \<times> 'v) list \<Rightarrow> bool" where
  "Map_has k m = (map_of m k \<noteq> None)"

definition Set_add :: "'a \<Rightarrow> 'a list \<Rightarrow> 'a list" where
  "Set_add a xs = (if a \<in> set xs then xs else xs @ [a])"

definition Set_delete :: "'a \<Rightarrow> 'a list \<Rightarrow> 'a list" where
  "Set_delete a xs = removeAll a xs"

section \<open>Elements (types.ts, \<^verbatim>\<open>CanvasElement\<close>)\<close>

text \<open>
  The TypeScript type \<^verbatim>\<open>number\<close> is modelled by \<^typ>\<open>real\<close>: the claims compare and add
  coordinates and never depend on rounding.  An optional field is an \<^typ>\<open>'a option\<close>,
  \<^verbatim>\<open>undefined\<close> being \<^const>\<open>None\<close>.  The decoded bitmap \<^verbatim>\<open>imageElement\<close> is represented
  by its \<^verbatim>\<open>src\<close>.  Field names carry the prefix \<^verbatim>\<open>el_\<close>.
\<close>

datatype element_type = Type_text | Type_image
datatype font_weight = Weight_normal | Weight_bold
datatype font_style = Style_normal | Style_italic
datatype text_align = Align_left | Align_center | Align_right

record element =
  el_id :: string
  el_type :: element_type
  el_x :: real
  el_y :: real
  el_width :: real
  el_height :: real
  el_content :: string
  el_fontSize :: "real option"
  el_fontFamily :: "string option"
  el_fontWeight :: "font_weight option"
  el_fontStyle :: "font_style option"
  el_textAlign :: "text_align option"
  el_color :: "string option"
  el_imageElement :: "string option"
  el_rotation :: "real option"
  el_canvasId :: "string option"
  el_cropX :: "real option"
  el_cropY :: "real option"
  el_cropWidth :: "real option"
  el_cropHeight :: "real option"
  el_originalWidth :: "real option"
  el_originalHeight :: "real option"

text \<open>
  \<^verbatim>\<open>Partial<CanvasElement>\<close>, the argument of \<^verbatim>\<open>updateElement\<close>, is the list of the
  properties it carries; \<^verbatim>\<open>Object.assign\<close> copies them onto the target one after the other.
\<close>

datatype assignment =
    Assign_id string
  | Assign_type element_type
  | Assign_x real
  | Assign_y real
  | Assign_width real
  | Assign_height real
  | Assign_content string
  | Assign_fontSize "real option"
  | Assign_fontFamily "string option"
  | Assign_fontWeight "font_weight option"
  | Assign_fontStyle "font_style option"
  | Assign_textAlign "text_align option"
  | Assign_color "string option"
  | Assign_imageElement "string option"
  | Assign_rotation "real option"
  | Assign_canvasId "string option"
  | Assign_cropX "real option"
  | Assign_cropY "real option"
  | Assign_cropWidth "real option"
  | Assign_cropHeight "real option"
  | Assign_originalWidth "real option"
  | Assign_originalHeight "real option"

fun assign_property :: "assignment \<Rightarrow> element \<Rightarrow> element" where
  "assign_property (Assign_id v) e = e\<lparr>el_id := v\<rparr>"
| "assign_property (Assign_type v) e = e\<lparr>el_type := v\<rparr>"
| "assign_property (Assign_x v) e = e\<lparr>el_x := v\<rparr>"
| "assign_property (Assign_y v) e = e\<lparr>el_y := v\<rparr>"
| "assign_property (Assign_width v) e = e\<lparr>el_width := v\<rparr>"
| "assign_property (Assign_height v) e = e\<lparr>el_height := v\<rparr>"
| "assign_property (Assign_content v) e = e\<lparr>el_content := v\<rparr>"
| "assign_property (Assign_fontSize v) e = e\<lparr>el_fontSize := v\<rparr>"
| "assign_property (Assign_fontFamily v) e = e\<lparr>el_fontFamily := v\<rparr>"
| "assign_property (Assign_fontWeight v) e = e\<lparr>el_fontWeight := v\<rparr>"
| "assign_property (Assign_fontStyle v) e = e\<lparr>el_fontStyle := v\<rparr>"
| "assign_property (Assign_textAlign v) e = e\<lparr>el_textAlign := v\<rparr>"
| "assign_property (Assign_color v) e = e\<lparr>el_color := v\<rparr>"
| "assign_property (Assign_imageElement v) e = e\<lparr>el_imageElement := v\<rparr>"
| "assign_property (Assign_rotation v) e = e\<lparr>el_rotation := v\<rparr>"
| "assign_property (Assign_canvasId v) e = e\<lparr>el_canvasId := v\<rparr>"
| "assign_property (Assign_cropX v) e = e\<lparr>el_cropX := v\<rparr>"
| "assign_property (Assign_cropY v) e = e\<lparr>el_cropY := v\<rparr>"
| "assign_property (Assign_cropWidth v) e = e\<lparr>el_cropWidth := v\<rparr>"
| "assign_property (Assign_cropHeight v) e = e\<lparr>el_cropHeight := v\<rparr>"
| "assign_property (Assign_originalWidth v) e = e\<lparr>el_originalWidth := v\<rparr>"
| "assign_property (Assign_originalHeight v) e = e\<lparr>el_originalHeight := v\<rparr>"

definition Object_assign :: "element \<Rightarrow> assignment list \<Rightarrow> element" where
  "Object_assign target updates = fold assign_property updates target"

section \<open>The element store (GlobalElementManager, latest revision: unnamed/part_002)\<close>

text \<open>
  The class keeps the elements in a \<^verbatim>\<open>Map\<close> keyed by id, the primary selection, the
  multi-selection \<^verbatim>\<open>Set\<close> and the \<^verbatim>\<open>Set\<close> of change listeners.  A listener is an opaque
  callback, named here by a number.  What \<^verbatim>\<open>notifyChange\<close> does to the outside world is
  recorded in \<open>trace\<close>: one \<open>ListenerCalled\<close> event per callback invoked, with the store
  contents the callback finds, and one \<open>SyncManagerNotified\<close> event when
  \<^verbatim>\<open>window.canvasSyncManager\<close> exists.  Callbacks are taken not to call back into the store.
  An object stored in the map is taken to be referenced from one key only, so that the in-place
  \<^verbatim>\<open>Object.assign\<close> is an update of that entry.
\<close>

type_synonym listener = nat

type_synonym snapshot = "(string \<times> element) list \<times> string option \<times> string list"

datatype event = ListenerCalled listener snapshot | SyncManagerNotified

record store =
  elements :: "(string \<times> element) list"
  selectedElementId :: "string option"
  selectedElementIds :: "string list"
  changeListeners :: "listener list"
  window_canvasSyncManager :: bool
  trace :: "event list"

definition new_store :: store where
  "new_store = \<lparr>elements = [], selectedElementId = None, selectedElementIds = [],
     changeListeners = [], window_canvasSyncManager = False, trace = []\<rparr>"

definition contents :: "store \<Rightarrow> snapshot" where
  "contents s = (elements s, selectedElementId s, selectedElementIds s)"

definition notifyChange :: "store \<Rightarrow> store" where
  "notifyChange s =
     s\<lparr>trace := trace s
          @ map (\<lambda>callback. ListenerCalled callback (contents s)) (changeListeners s)
          @ (if window_canvasSyncManager s then [SyncManagerNotified] else [])\<rparr>"

definition addElement :: "store \<Rightarrow> element \<Rightarrow> store" where
  "addElement s element =
     notifyChange (s\<lparr>elements := AList.update (el_id element) element (elements s)\<rparr>)"

definition subscribe :: "store \<Rightarrow> listener \<Rightarrow> store" where
  "subscribe s callback = s\<lparr>changeListeners := Set_add callback (changeListeners s)\<rparr>"

definition unsubscribe :: "store \<Rightarrow> listener \<Rightarrow> store" where
  "unsubscribe s callback = s\<lparr>changeListeners := Set_delete callback (changeListeners s)\<rparr>"

definition removeElement :: "store \<Rightarrow> string \<Rightarrow> store" where
  "removeElement s elementId =
     (if Map_has elementId (elements s) then
        let s1 = s\<lparr>elements := AList.delete elementId (elements s)\<rparr>;
            s2 = (if selectedElementId s1 = Some elementId
                  then s1\<lparr>selectedElementId := None\<rparr> else s1)
        in notifyChange s2
      else s)"

definition getElement :: "store \<Rightarrow> string \<Rightarrow> element option" where
  "getElement s elementId = map_of (elements s) elementId"

definition getAllElements :: "store \<Rightarrow> element list" where
  "getAllElements s = map snd (elements s)"

definition updateElement :: "store \<Rightarrow> string \<Rightarrow> assignment list \<Rightarrow> store" where
  "updateElement s elementId updates =
     (case map_of (elements s) elementId of
        Some element \<Rightarrow>
          notifyChange
            (s\<lparr>elements := AList.update elementId (Object_assign element updates) (elements s)\<rparr>)
      | None \<Rightarrow> s)"

text \<open>
  The two rectangle queries walk the map with \<^verbatim>\<open>forEach\<close> and \<^verbatim>\<open>push\<close> the elements that
  pass the test; the loops are the recursions \<open>forEach_push\<close> below.
\<close>

fun forEach_push :: "(element \<Rightarrow> bool) \<Rightarrow> element list \<Rightarrow> element list \<Rightarrow> element list" where
  "forEach_push test [] result = result"
| "forEach_push test (element # rest) result =
     forEach_push test rest (if test element then result @ [element] else result)"

definition getElementsForCanvas :: "store \<Rightarrow> real \<Rightarrow> real \<Rightarrow> real \<Rightarrow> real \<Rightarrow> element list" where
  "getElementsForCanvas s canvasOffsetX canvasOffsetY canvasWidth canvasHeight =
     forEach_push
       (\<lambda>element.
          let elementRight = el_x element + el_width element;
              elementBottom = el_y element + el_height element;
              canvasRight = canvasOffsetX + canvasWidth;
              canvasBottom = canvasOffsetY + canvasHeight
          in el_x element < canvasRight \<and> elementRight > canvasOffsetX \<and>
             el_y element < canvasBottom \<and> elementBottom > canvasOffsetY)
       (map snd (elements s)) []"

definition setSelectedElement :: "store \<Rightarrow> string option \<Rightarrow> store" where
  "setSelectedElement s elementId = s\<lparr>selectedElementId := elementId\<rparr>"

text \<open>The empty string is falsy, so \<^verbatim>\<open>if (this.selectedElementId)\<close> fails on it too.\<close>

definition getSelectedElement :: "store \<Rightarrow> element option" where
  "getSelectedElement s =
     (case selectedElementId s of
        None \<Rightarrow> None
      | Some sid \<Rightarrow> if sid = [] then None else map_of (elements s) sid)"

definition addToSelection :: "store \<Rightarrow> string \<Rightarrow> store" where
  "addToSelection s elementId =
     notifyChange (s\<lparr>selectedElementIds := Set_add elementId (selectedElementIds s)\<rparr>)"

definition removeFromSelection :: "store \<Rightarrow> string \<Rightarrow> store" where
  "removeFromSelection s elementId =
     notifyChange (s\<lparr>selectedElementIds := Set_delete elementId (selectedElementIds s)\<rparr>)"

definition clearSelection :: "store \<Rightarrow> store" where
  "clearSelection s = notifyChange (s\<lparr>selectedElementIds := [], selectedElementId := None\<rparr>)"

definition getSelectedElements :: "store \<Rightarrow> element list" where
  "getSelectedElements s = List.map_filter (\<lambda>i. map_of (elements s) i) (selectedElementIds s)"

definition isSelected :: "store \<Rightarrow> string \<Rightarrow> bool" where
  "isSelected s elementId =
     (elementId \<in> set (selectedElementIds s) \<or> selectedElementId s = Some elementId)"

definition getElementsInRectangle :: "store \<Rightarrow> real \<Rightarrow> real \<Rightarrow> real \<Rightarrow> real \<Rightarrow> element list" where
  "getElementsInRectangle s x y width height =
     (let rectRight = x + width; rectBottom = y + height
      in forEach_push
           (\<lambda>element.
              let elementRight = el_x element + el_width element;
                  elementBottom = el_y element + el_height element
              in \<not> (el_x element > rectRight \<or> elementRight < x \<or>
                     el_y element > rectBottom \<or> elementBottom < y))
           (map snd (elements s)) [])"

definition clearAll :: "store \<Rightarrow> store" where
  "clearAll s = s\<lparr>elements := [], selectedElementId := None\<rparr>"

text \<open>
  \<^verbatim>\<open>duplicateElement\<close> names the copy \<^verbatim>\<open>element-${Date.now()}\<close>; the clock reading, printed
  in decimal, is the parameter \<open>now\<close>.  The result is the returned value and the store.
\<close>

definition duplicateElement ::
  "store \<Rightarrow> string \<Rightarrow> real \<Rightarrow> real \<Rightarrow> string \<Rightarrow> element option \<times> store" where
  "duplicateElement s elementId offsetX offsetY now =
     (case map_of (elements s) elementId of
        None \<Rightarrow> (None, s)
      | Some original \<Rightarrow>
          let duplicate = original\<lparr>el_id := ''element-'' @ now,
                                   el_x := el_x original + offsetX,
                                   el_y := el_y original + offsetY\<rparr>;
              duplicate' =
                (if el_type duplicate = Type_image \<and> el_imageElement original \<noteq> None
                 then duplicate\<lparr>el_imageElement := el_imageElement original\<rparr>
                 else duplicate)
          in (Some duplicate', addElement s duplicate'))"

text \<open>
  \<^verbatim>\<open>getElementAtPoint\<close> copies the values into an array and scans it from the last index
  down to 0.  \<open>scan_down hit arr n\<close> is the loop with \<open>n\<close> indices left, so the loop
  variable is \<open>n - 1\<close>.
\<close>

definition hits :: "element \<Rightarrow> real \<Rightarrow> real \<Rightarrow> bool" where
  "hits element globalX globalY =
     (case (el_cropX element, el_cropY element, el_cropWidth element, el_cropHeight element) of
        (Some cropX, Some cropY, Some cropWidth, Some cropHeight) \<Rightarrow>
          let cropLeft = el_x element + cropX;
              cropTop = el_y element + cropY;
              cropRight = cropLeft + cropWidth;
              cropBottom = cropTop + cropHeight
          in globalX \<ge> cropLeft \<and> globalX \<le> cropRight \<and>
             globalY \<ge> cropTop \<and> globalY \<le> cropBottom
      | _ \<Rightarrow>
          globalX \<ge> el_x element \<and> globalX \<le> el_x element + el_width element \<and>
          globalY \<ge> el_y element \<and> globalY \<le> el_y element + el_height element)"

fun scan_down :: "(element \<Rightarrow> bool) \<Rightarrow> element list \<Rightarrow> nat \<Rightarrow> element option" where
  "scan_down hit elementsArray 0 = None"
| "scan_down hit elementsArray (Suc i) =
     (if hit (elementsArray ! i) then Some (elementsArray ! i)
      else scan_down hit elementsArray i)"

definition getElementAtPoint :: "store \<Rightarrow> real \<Rightarrow> real \<Rightarrow> element option" where
  "getElementAtPoint s globalX globalY =
     (let elementsArray = map snd (elements s)
      in scan_down (\<lambda>element. hits element globalX globalY) elementsArray (length elementsArray))"

definition moveElementToFront :: "store \<Rightarrow> string \<Rightarrow> store" where
  "moveElementToFront s elementId =
     (case map_of (elements s) elementId of
        Some element \<Rightarrow>
          s\<lparr>elements := AList.update elementId element (AList.delete elementId (elements s))\<rparr>
      | None \<Rightarrow> s)"

definition moveElementToBack :: "store \<Rightarrow> string \<Rightarrow> store" where
  "moveElementToBack s elementId =
     (case map_of (elements s) elementId of
        Some element \<Rightarrow>
          let allElements = elements s
          in s\<lparr>elements :=
                 fold (\<lambda>(id', el) m. if id' \<noteq> elementId then AList.update id' el m else m)
                      allElements (AList.update elementId element [])\<rparr>
      | None \<Rightarrow> s)"

subsection \<open>Older revisions of two methods\<close>

text \<open>
  The revision in src/GlobalElementManager.ts tests the full box only, with the same loop.
\<close>

definition hits_full_box :: "element \<Rightarrow> real \<Rightarrow> real \<Rightarrow> bool" where
  "hits_full_box element globalX globalY =
     (globalX \<ge> el_x element \<and> globalX \<le> el_x element + el_width element \<and>
      globalY \<ge> el_y element \<and> globalY \<le> el_y element + el_height element)"

definition getElementAtPoint_full_box :: "store \<Rightarrow> real \<Rightarrow> real \<Rightarrow> element option" where
  "getElementAtPoint_full_box s globalX globalY =
     (let elementsArray = map snd (elements s)
      in scan_down (\<lambda>element. hits_full_box element globalX globalY) elementsArray
           (length elementsArray))"

text \<open>
  The earliest revision (unnamed/part_003) has no listeners; its \<^verbatim>\<open>removeElement\<close> deletes
  and then resets the primary selection without asking whether the key was there.
\<close>

definition removeElement_unguarded :: "store \<Rightarrow> string \<Rightarrow> store" where
  "removeElement_unguarded s elementId =
     (let s1 = s\<lparr>elements := AList.delete elementId (elements s)\<rparr>
      in if selectedElementId s1 = Some elementId then s1\<lparr>selectedElementId := None\<rparr> else s1)"

section \<open>The grid of viewports (CanvasGridManager, unnamed/part_000)\<close>

text \<open>
  Rows and columns are whole numbers.  The source keys the grid by the string
  \<^verbatim>\<open>`${row},${col}`\<close>, which determines the pair of whole numbers and is determined by it,
  so the grid is keyed here by the pair.  \<^verbatim>\<open>sort()\<close> without a comparator orders strings by
  their code units; \<open>string_less\<close> is that order on \<^typ>\<open>string\<close>.
\<close>

record GridPosition =
  row :: int
  col :: int

record grid_manager =
  grid :: "((int \<times> int) \<times> string) list"
  canvasPositions :: "(string \<times> GridPosition) list"
  linkStates :: "(string \<times> bool) list"

definition new_grid_manager :: grid_manager where
  "new_grid_manager = \<lparr>grid = [], canvasPositions = [], linkStates = []\<rparr>"

fun string_less :: "string \<Rightarrow> string \<Rightarrow> bool" where
  "string_less [] [] = False"
| "string_less [] (d # ds) = True"
| "string_less (c # cs) [] = False"
| "string_less (c # cs) (d # ds) =
     ((of_char c :: nat) < of_char d \<or> (c = d \<and> string_less cs ds))"

text \<open>\<^verbatim>\<open>[canvas1, canvas2].sort().join('-')\<close>\<close>

definition getLinkKey :: "string \<Rightarrow> string \<Rightarrow> string" where
  "getLinkKey canvas1 canvas2 =
     (if string_less canvas2 canvas1 then canvas2 @ ''-'' @ canvas1
      else canvas1 @ ''-'' @ canvas2)"

text \<open>\<^verbatim>\<open>this.grid.get(key) || null\<close>: the empty id is falsy and reads as no canvas.\<close>

definition getCanvasAt :: "grid_manager \<Rightarrow> int \<Rightarrow> int \<Rightarrow> string option" where
  "getCanvasAt g r c =
     (case map_of (grid g) (r, c) of
        None \<Rightarrow> None
      | Some canvasId \<Rightarrow> if canvasId = [] then None else Some canvasId)"

definition directions :: "(string \<times> int \<times> int) list" where
  "directions =
     [(''top'', -1, 0), (''top-right'', -1, 1), (''right'', 0, 1), (''bottom-right'', 1, 1),
      (''bottom'', 1, 0), (''bottom-left'', 1, -1), (''left'', 0, -1), (''top-left'', -1, -1)]"

definition getAdjacentCanvases :: "grid_manager \<Rightarrow> string \<Rightarrow> (string \<times> string) list" where
  "getAdjacentCanvases g canvasId =
     (case map_of (canvasPositions g) canvasId of
        None \<Rightarrow> []
      | Some position \<Rightarrow>
          fold (\<lambda>(dir, dr, dc) adjacent.
                  case getCanvasAt g (row position + dr) (col position + dc) of
                    Some adjacentCanvas \<Rightarrow> AList.update dir adjacentCanvas adjacent
                  | None \<Rightarrow> adjacent)
               directions [])"

definition createAdjacentLinks :: "grid_manager \<Rightarrow> string \<Rightarrow> int \<Rightarrow> int \<Rightarrow> grid_manager" where
  "createAdjacentLinks g canvasId r c =
     fold (\<lambda>(direction, adjacentId) g'.
             let linkKey = getLinkKey canvasId adjacentId
             in if \<not> Map_has linkKey (linkStates g')
                then g'\<lparr>linkStates := AList.update linkKey True (linkStates g')\<rparr>
                else g')
          (getAdjacentCanvases g canvasId) g"

definition addCanvas :: "grid_manager \<Rightarrow> string \<Rightarrow> int \<Rightarrow> int \<Rightarrow> grid_manager" where
  "addCanvas g canvasId r c =
     createAdjacentLinks
       (g\<lparr>grid := AList.update (r, c) canvasId (grid g),
          canvasPositions := AList.update canvasId \<lparr>row = r, col = c\<rparr> (canvasPositions g)\<rparr>)
       canvasId r c"

text \<open>\<^verbatim>\<open>String.prototype.includes\<close>: the argument occurs somewhere as a contiguous run.\<close>

fun startsWith :: "string \<Rightarrow> string \<Rightarrow> bool" where
  "startsWith s [] = True"
| "startsWith [] (p # ps) = False"
| "startsWith (c # cs) (p # ps) = (c = p \<and> startsWith cs ps)"

fun String_includes :: "string \<Rightarrow> string \<Rightarrow> bool" where
  "String_includes [] search = (search = [])"
| "String_includes (c # cs) search = (startsWith (c # cs) search \<or> String_includes cs search)"

definition removeCanvasLinks :: "grid_manager \<Rightarrow> string \<Rightarrow> grid_manager" where
  "removeCanvasLinks g canvasId =
     (let keysToRemove = filter (\<lambda>key. String_includes key canvasId) (map fst (linkStates g))
      in g\<lparr>linkStates := fold AList.delete keysToRemove (linkStates g)\<rparr>)"

definition removeCanvas :: "grid_manager \<Rightarrow> string \<Rightarrow> grid_manager" where
  "removeCanvas g canvasId =
     (case map_of (canvasPositions g) canvasId of
        Some position \<Rightarrow>
          removeCanvasLinks
            (g\<lparr>grid := AList.delete (row position, col position) (grid g),
               canvasPositions := AList.delete canvasId (canvasPositions g)\<rparr>)
            canvasId
      | None \<Rightarrow> g)"

text \<open>\<^verbatim>\<open>this.linkStates.get(key) || false\<close>\<close>

definition linkState_or_false :: "grid_manager \<Rightarrow> string \<Rightarrow> bool" where
  "linkState_or_false g key = (case map_of (linkStates g) key of Some b \<Rightarrow> b | None \<Rightarrow> False)"

definition toggleLink :: "grid_manager \<Rightarrow> string \<Rightarrow> string \<Rightarrow> bool \<times> grid_manager" where
  "toggleLink g canvas1 canvas2 =
     (let key = getLinkKey canvas1 canvas2;
          currentState = linkState_or_false g key;
          newState = (\<not> currentState)
      in (newState, g\<lparr>linkStates := AList.update key newState (linkStates g)\<rparr>))"

definition setLinkState :: "grid_manager \<Rightarrow> string \<Rightarrow> string \<Rightarrow> bool \<Rightarrow> grid_manager" where
  "setLinkState g canvas1 canvas2 enabled =
     g\<lparr>linkStates := AList.update (getLinkKey canvas1 canvas2) enabled (linkStates g)\<rparr>"

definition areCanvasesLinked :: "grid_manager \<Rightarrow> string \<Rightarrow> string \<Rightarrow> bool" where
  "areCanvasesLinked g canvas1 canvas2 = linkState_or_false g (getLinkKey canvas1 canvas2)"

definition getCanvasPosition :: "grid_manager \<Rightarrow> string \<Rightarrow> GridPosition option" where
  "getCanvasPosition g canvasId = map_of (canvasPositions g) canvasId"

section \<open>Offsets of the viewports (MultiCanvasManager, unnamed/part_001)\<close>

text \<open>
  Of a CanvasManager only the offset matters here; \<^verbatim>\<open>setOffset\<close> stores it and redraws.
  Of the orchestrator: the map of the viewports, the map of their \<^verbatim>\<open>CanvasData\<close>, the grid
  and the shared resolution.
\<close>

record CanvasManager =
  cm_offsetX :: real
  cm_offsetY :: real

record CanvasData =
  cd_id :: string
  cd_name :: string
  cd_width :: real
  cd_height :: real
  cd_offsetX :: real
  cd_offsetY :: real

record Resolution =
  res_width :: real
  res_height :: real

record MultiCanvasManager =
  canvases :: "(string \<times> CanvasManager) list"
  canvasDataMap :: "(string \<times> CanvasData) list"
  gridManager :: grid_manager
  currentResolution :: Resolution

definition setOffset :: "CanvasManager \<Rightarrow> real \<Rightarrow> real \<Rightarrow> CanvasManager" where
  "setOffset cm offsetX offsetY = cm\<lparr>cm_offsetX := offsetX, cm_offsetY := offsetY\<rparr>"

text \<open>
  The body of the \<^verbatim>\<open>forEach\<close> of \<^verbatim>\<open>recalculateOffsets\<close>, for one entry of \<^verbatim>\<open>canvases\<close>.
\<close>

definition recalculate_one ::
  "string \<times> CanvasManager \<Rightarrow> MultiCanvasManager \<Rightarrow> MultiCanvasManager" where
  "recalculate_one entry m =
     (case entry of (canvasId, canvasManager) \<Rightarrow>
        (case getCanvasPosition (gridManager m) canvasId of
           None \<Rightarrow> m
         | Some gridPos \<Rightarrow>
             let offsetX = real_of_int (col gridPos) * res_width (currentResolution m);
                 offsetY = real_of_int (row gridPos) * res_height (currentResolution m);
                 m1 = m\<lparr>canvases :=
                         AList.update canvasId (setOffset canvasManager offsetX offsetY)
                           (canvases m)\<rparr>
             in (case map_of (canvasDataMap m1) canvasId of
                   Some canvasData \<Rightarrow>
                     m1\<lparr>canvasDataMap :=
                          AList.update canvasId
                            (canvasData\<lparr>cd_offsetX := offsetX, cd_offsetY := offsetY\<rparr>)
                            (canvasDataMap m1)\<rparr>
                 | None \<Rightarrow> m1)))"

definition recalculateOffsets :: "MultiCanvasManager \<Rightarrow> MultiCanvasManager" where
  "recalculateOffsets m = fold recalculate_one (canvases m) m"

section \<open>Example data\<close>

text \<open>A text element with the given id and box and no optional property.\<close>

definition plain_box :: "string \<Rightarrow> real \<Rightarrow> real \<Rightarrow> real \<Rightarrow> real \<Rightarrow> element" where
  "plain_box i x y w h =
     \<lparr>el_id = i, el_type = Type_text, el_x = x, el_y = y, el_width = w, el_height = h,
      el_content = [], el_fontSize = None, el_fontFamily = None, el_fontWeight = None,
      el_fontStyle = None, el_textAlign = None, el_color = None, el_imageElement = None,
      el_rotation = None, el_canvasId = None, el_cropX = None, el_cropY = None,
      el_cropWidth = None, el_cropHeight = None, el_originalWidth = None,
      el_originalHeight = None\<rparr>"

text \<open>A store with one subscriber and one element, which is the primary selection.\<close>

definition example_store :: store where
  "example_store =
     setSelectedElement
       (addElement (subscribe new_store 7) (plain_box ''a'' 0 0 10 10)) (Some ''a'')"

text \<open>An element whose right edge lies on the left edge of the rectangle asked for below.\<close>

definition touching_store :: store where
  "touching_store = addElement new_store (plain_box ''a'' 10 0 10 10)"

text \<open>
  Two elements; a plain click on \<open>a\<close> (\<^verbatim>\<open>clearSelection\<close>, then \<^verbatim>\<open>setSelectedElement\<close>) and a
  shift-click on \<open>b\<close> (\<^verbatim>\<open>addToSelection\<close>), as the pointer handler of CanvasManager issues them.
\<close>

definition shift_click_store :: store where
  "shift_click_store =
     addToSelection
       (setSelectedElement
          (clearSelection
             (addElement (addElement new_store (plain_box ''a'' 0 0 10 10))
                (plain_box ''b'' 50 0 10 10)))
          (Some ''a''))
       ''b''"

text \<open>Three viewports in row 0: \<open>c1\<close> alone at column 0, \<open>c10\<close> and \<open>c2\<close> side by side.\<close>

definition three_canvases :: grid_manager where
  "three_canvases =
     addCanvas (addCanvas (addCanvas new_grid_manager ''c1'' 0 0) ''c10'' 0 5) ''c2'' 0 6"

text \<open>Two viewports whose stored offsets are stale, at the resolution 800 by 600.\<close>

definition two_viewports :: MultiCanvasManager where
  "two_viewports =
     \<lparr>canvases = [(''v1'', \<lparr>cm_offsetX = 0, cm_offsetY = 0\<rparr>),
                  (''v2'', \<lparr>cm_offsetX = 5, cm_offsetY = 7\<rparr>)],
      canvasDataMap =
        [(''v1'', \<lparr>cd_id = ''v1'', cd_name = ''1'', cd_width = 800, cd_height = 600,
                   cd_offsetX = 0, cd_offsetY = 0\<rparr>),
         (''v2'', \<lparr>cd_id = ''v2'', cd_name = ''2'', cd_width = 800, cd_height = 600,
                   cd_offsetX = 5, cd_offsetY = 7\<rparr>)],
      gridManager = addCanvas (addCanvas new_grid_manager ''v1'' 0 0) ''v2'' 1 2,
      currentResolution = \<lparr>res_width = 800, res_height = 600\<rparr>\<rparr>"

text \<open>
  A text box and, above it, an image of which only the part from (10, 10) to (30, 30) of its
  own box is shown.
\<close>

definition cropped_store :: store where
  "cropped_store =
     addElement
       (addElement new_store (plain_box ''t'' 0 0 100 100))
       ((plain_box ''i'' 50 50 100 100)
          \<lparr>el_type := Type_image, el_cropX := Some 10, el_cropY := Some 10,
           el_cropWidth := Some 20, el_cropHeight := Some 20\<rparr>)"

section \<open>Notions of the specification\<close>

text \<open>
  The effective bounds of an element, as intervals on the two axes: the crop rectangle moved
  to global coordinates when a crop is set (all four crop properties), the full box otherwise.
\<close>

definition effective_bounds :: "element \<Rightarrow> (real \<times> real) \<times> (real \<times> real)" where
  "effective_bounds e =
     (case (el_cropX e, el_cropY e, el_cropWidth e, el_cropHeight e) of
        (Some cx, Some cy, Some cw, Some ch) \<Rightarrow>
          ((el_x e + cx, el_x e + cx + cw), (el_y e + cy, el_y e + cy + ch))
      | _ \<Rightarrow> ((el_x e, el_x e + el_width e), (el_y e, el_y e + el_height e)))"

definition bounds_contain :: "element \<Rightarrow> real \<Rightarrow> real \<Rightarrow> bool" where
  "bounds_contain e px py =
     (case effective_bounds e of
        ((x1, x2), (y1, y2)) \<Rightarrow> x1 \<le> px \<and> px \<le> x2 \<and> y1 \<le> py \<and> py \<le> y2)"

text \<open>The last element of a list, in its order, that satisfies \<open>P\<close>; nothing when none does.\<close>

definition topmost :: "(element \<Rightarrow> bool) \<Rightarrow> element list \<Rightarrow> element option" where
  "topmost P es = (if filter P es = [] then None else Some (last (filter P es)))"

text \<open>
  The overlap test of the specification against the rectangle with the given left, top, right
  and bottom, and its variant with the boundaries included.
\<close>

definition overlaps :: "element \<Rightarrow> real \<Rightarrow> real \<Rightarrow> real \<Rightarrow> real \<Rightarrow> bool" where
  "overlaps e rect_left rect_top rect_right rect_bottom =
     (el_x e < rect_right \<and> el_x e + el_width e > rect_left \<and>
      el_y e < rect_bottom \<and> el_y e + el_height e > rect_top)"

definition overlaps_or_touches :: "element \<Rightarrow> real \<Rightarrow> real \<Rightarrow> real \<Rightarrow> real \<Rightarrow> bool" where
  "overlaps_or_touches e rect_left rect_top rect_right rect_bottom =
     (el_x e \<le> rect_right \<and> el_x e + el_width e \<ge> rect_left \<and>
      el_y e \<le> rect_bottom \<and> el_y e + el_height e \<ge> rect_top)"

text \<open>
  The calls a listener received in a stretch of the trace, each with the contents it saw.
  An operation that took \<open>s\<close> to \<open>s'\<close> notified once when the old trace is kept and, after
  it, every subscriber was called exactly once, seeing the contents of \<open>s'\<close>.
\<close>

definition calls_to :: "listener \<Rightarrow> event list \<Rightarrow> snapshot list" where
  "calls_to l evs =
     concat (map (\<lambda>ev. case ev of ListenerCalled l' seen \<Rightarrow> if l' = l then [seen] else []
                            | SyncManagerNotified \<Rightarrow> []) evs)"

definition notified_once :: "store \<Rightarrow> store \<Rightarrow> bool" where
  "notified_once s s' =
     (take (length (trace s)) (trace s') = trace s \<and>
      (\<forall>l \<in> set (changeListeners s').
         calls_to l (drop (length (trace s)) (trace s')) = [contents s']))"

text \<open>
  The offset a grid cell calls for at the shared resolution of \<open>m\<close>; a \<^verbatim>\<open>CanvasData\<close> moved
  to an offset; a viewport id whose manager and data already sit at the offset of its cell.
\<close>

definition target_offset :: "MultiCanvasManager \<Rightarrow> GridPosition \<Rightarrow> real \<times> real" where
  "target_offset m pos =
     (real_of_int (col pos) * res_width (currentResolution m),
      real_of_int (row pos) * res_height (currentResolution m))"

definition place_data :: "real \<times> real \<Rightarrow> CanvasData \<Rightarrow> CanvasData" where
  "place_data off cd = cd\<lparr>cd_offsetX := fst off, cd_offsetY := snd off\<rparr>"

definition settled_at :: "MultiCanvasManager \<Rightarrow> string \<Rightarrow> bool" where
  "settled_at m cid =
     (case getCanvasPosition (gridManager m) cid of
        None \<Rightarrow> True
      | Some pos \<Rightarrow>
          map_of (canvases m) cid =
            Some \<lparr>cm_offsetX = fst (target_offset m pos), cm_offsetY = snd (target_offset m pos)\<rparr> \<and>
          (case map_of (canvasDataMap m) cid of
             None \<Rightarrow> True
           | Some cd \<Rightarrow> place_data (target_offset m pos) cd = cd))"


section \<open>Unknown ids\<close>

lemma getSelectedElement_member:
  "getSelectedElement s = Some e \<Longrightarrow> e \<in> set (getAllElements s)"
proof -
  assume "getSelectedElement s = Some e"
  then obtain sid where "map_of (elements s) sid = Some e"
    by (auto simp: getSelectedElement_def split: option.splits if_splits)
  then have "(sid, e) \<in> set (elements s)" by (rule map_of_SomeD)
  then show ?thesis unfolding getAllElements_def by force
qed

lemma getSelectedElement_after_remove:
  "selectedElementId s = Some i \<Longrightarrow> getSelectedElement (removeElement s i) = None"
  by (simp add: getSelectedElement_def removeElement_def Map_has_def notifyChange_def Let_def
      AList.delete_conv' split: option.splits)

lemma getSelectedElement_after_remove_unguarded:
  "selectedElementId s = Some i \<Longrightarrow> getSelectedElement (removeElement_unguarded s i) = None"
  by (simp add: getSelectedElement_def removeElement_unguarded_def Let_def)

lemma example_store_eq:
  "example_store =
     \<lparr>elements = [(''a'', plain_box ''a'' 0 0 10 10)], selectedElementId = Some ''a'',
      selectedElementIds = [], changeListeners = [7], window_canvasSyncManager = False,
      trace = [ListenerCalled 7 ([(''a'', plain_box ''a'' 0 0 10 10)], None, [])]\<rparr>"
  by (simp add: example_store_def setSelectedElement_def addElement_def subscribe_def
      new_store_def notifyChange_def Set_add_def contents_def plain_box_def)

text \<open>
  C5.  For an id that is not a key of the store, \<^verbatim>\<open>removeElement\<close>, \<^verbatim>\<open>updateElement\<close>,
  \<^verbatim>\<open>moveElementToFront\<close> and \<^verbatim>\<open>moveElementToBack\<close> return the store as it was (elements,
  selection, listeners and trace: nothing is notified, nothing is raised), \<^verbatim>\<open>duplicateElement\<close>
  returns \<^verbatim>\<open>null\<close> and the unchanged store, and \<^verbatim>\<open>getElement\<close> answers \<^verbatim>\<open>undefined\<close>.
\<close>

theorem unknown_id_is_noop:
  "map_of (elements s) i = None \<Longrightarrow>
     removeElement s i = s \<and> updateElement s i updates = s \<and>
     moveElementToFront s i = s \<and> moveElementToBack s i = s \<and>
     duplicateElement s i dx dy now = (None, s) \<and> getElement s i = None"
  by (simp add: removeElement_def updateElement_def moveElementToFront_def moveElementToBack_def
      duplicateElement_def getElement_def Map_has_def)

theorem unknown_id_is_noop_witness:
  "map_of (elements example_store) ''zz'' = None \<and>
   removeElement example_store ''zz'' = example_store \<and>
   updateElement example_store ''zz'' [Assign_x 5] = example_store \<and>
   moveElementToFront example_store ''zz'' = example_store \<and>
   moveElementToBack example_store ''zz'' = example_store \<and>
   duplicateElement example_store ''zz'' 20 20 ''1700000000000'' = (None, example_store) \<and>
   getElement example_store ''zz'' = None"
proof -
  have h: "map_of (elements example_store) ''zz'' = None"
    by (simp add: example_store_eq)
  show ?thesis
    using h unknown_id_is_noop [OF h, of "[Assign_x 5]" 20 20 "''1700000000000''"] by simp
qed

section \<open>The primary selection and the store\<close>

text \<open>
  C10.  \<^verbatim>\<open>getSelectedElement\<close> returns \<^verbatim>\<open>null\<close> or one of the elements of the store, and
  after \<^verbatim>\<open>removeElement(id)\<close> of the primary selection it returns \<^verbatim>\<open>null\<close>, with the
  \<^verbatim>\<open>removeElement\<close> of the latest revision and with that of the earliest.
\<close>

theorem selected_element_in_store:
  "(case getSelectedElement s of None \<Rightarrow> True | Some e \<Rightarrow> e \<in> set (getAllElements s)) \<and>
   (selectedElementId s = Some i \<longrightarrow>
      getSelectedElement (removeElement s i) = None \<and>
      getSelectedElement (removeElement_unguarded s i) = None)"
  using getSelectedElement_member [of s] getSelectedElement_after_remove [of s i]
    getSelectedElement_after_remove_unguarded [of s i]
  by (simp split: option.splits)

theorem selected_element_in_store_witness:
  "selectedElementId example_store = Some ''a'' \<and>
   getSelectedElement example_store = Some (plain_box ''a'' 0 0 10 10) \<and>
   plain_box ''a'' 0 0 10 10 \<in> set (getAllElements example_store) \<and>
   getSelectedElement (removeElement example_store ''a'') = None \<and>
   getSelectedElement (removeElement_unguarded example_store ''a'') = None"
proof -
  have h: "selectedElementId example_store = Some ''a''"
    by (simp add: example_store_eq)
  have g: "getSelectedElement example_store = Some (plain_box ''a'' 0 0 10 10)"
    by (simp add: example_store_eq getSelectedElement_def)
  show ?thesis
    using h g selected_element_in_store [of example_store "''a''"] by simp
qed

section \<open>Hit testing\<close>

lemma hits_bounds_contain: "hits e px py = bounds_contain e px py"
  by (auto simp: hits_def bounds_contain_def effective_bounds_def Let_def split: option.splits)

lemma scan_down_topmost:
  "n \<le> length arr \<Longrightarrow> scan_down hit arr n = topmost hit (take n arr)"
proof (induction n)
  case 0
  then show ?case by (simp add: topmost_def)
next
  case (Suc n)
  then have t: "take (Suc n) arr = take n arr @ [arr ! n]"
    by (simp add: take_Suc_conv_app_nth)
  show ?case
  proof (cases "hit (arr ! n)")
    case True
    then show ?thesis by (simp add: t topmost_def)
  next
    case False
    with Suc show ?thesis by (simp add: t topmost_def)
  qed
qed

text \<open>
  C2.  For every point, \<^verbatim>\<open>getElementAtPoint\<close> returns the last element, in the iteration
  order of the map, whose effective bounds contain the point (the crop rectangle in global
  coordinates when a crop is set, the closed full box otherwise), and \<^verbatim>\<open>null\<close> when no
  element's effective bounds contain it.
\<close>

theorem getElementAtPoint_topmost:
  "getElementAtPoint s px py = topmost (\<lambda>e. bounds_contain e px py) (getAllElements s)"
  by (simp add: getElementAtPoint_def getAllElements_def Let_def scan_down_topmost
      hits_bounds_contain)

text \<open>
  The older revision returns the last element whose full box contains the point, and agrees
  with the latest one on a store in which no element has all four crop properties.
\<close>

lemma getElementAtPoint_full_box_topmost:
  "getElementAtPoint_full_box s px py =
     topmost (\<lambda>e. hits_full_box e px py) (getAllElements s)"
  by (simp add: getElementAtPoint_full_box_def getAllElements_def Let_def scan_down_topmost)

lemma hits_without_crop:
  "el_cropX e = None \<or> el_cropY e = None \<or> el_cropWidth e = None \<or> el_cropHeight e = None
     \<Longrightarrow> hits e px py = hits_full_box e px py"
  by (auto simp: hits_def hits_full_box_def split: option.splits)

lemma getElementAtPoint_full_box_agrees:
  assumes "\<forall>e \<in> set (getAllElements s).
     el_cropX e = None \<or> el_cropY e = None \<or> el_cropWidth e = None \<or> el_cropHeight e = None"
  shows "getElementAtPoint_full_box s px py = getElementAtPoint s px py"
proof -
  have "filter (\<lambda>e. hits_full_box e px py) (getAllElements s) =
        filter (\<lambda>e. hits e px py) (getAllElements s)"
    using assms by (intro filter_cong refl) (simp add: hits_without_crop)
  then show ?thesis
    by (simp add: getElementAtPoint_full_box_def getElementAtPoint_def getAllElements_def
        Let_def scan_down_topmost topmost_def)
qed

text \<open>
  On the example: (55, 55) lies in the image's box but outside its crop, so the text box
  below is hit; (65, 65) lies in the crop, so the image is hit; (200, 200) hits nothing.
\<close>

lemma getElementAtPoint_example:
  "getElementAtPoint cropped_store 55 55 = Some (plain_box ''t'' 0 0 100 100) \<and>
   map_option el_id (getElementAtPoint cropped_store 65 65) = Some ''i'' \<and>
   getElementAtPoint cropped_store 200 200 = None \<and>
   map_option el_id (getElementAtPoint_full_box cropped_store 55 55) = Some ''i''"
  by (simp add: cropped_store_def addElement_def new_store_def notifyChange_def
      getElementAtPoint_def getElementAtPoint_full_box_def hits_def hits_full_box_def
      plain_box_def Let_def)

section \<open>Rectangle queries\<close>

lemma forEach_push_filter: "forEach_push test es result = result @ filter test es"
  by (induction es arbitrary: result) auto

text \<open>
  C3, as the code has it.  \<^verbatim>\<open>getElementsForCanvas\<close>, the query of the renderer, returns
  exactly the elements that pass the strict test of the specification, in map order.
  \<^verbatim>\<open>getElementsInRectangle\<close>, the query of the rubber band, returns exactly the elements
  that pass the test with the boundaries included, so it also returns a box that only touches
  the rectangle.
\<close>

theorem rectangle_queries:
  "getElementsForCanvas s x y w h =
     filter (\<lambda>e. overlaps e x y (x + w) (y + h)) (getAllElements s) \<and>
   getElementsInRectangle s x y w h =
     filter (\<lambda>e. overlaps_or_touches e x y (x + w) (y + h)) (getAllElements s)"
  by (simp add: getElementsForCanvas_def getElementsInRectangle_def forEach_push_filter
      getAllElements_def overlaps_def overlaps_or_touches_def Let_def not_less not_le)

text \<open>
  C3 as stated fails on \<^verbatim>\<open>getElementsInRectangle\<close>: the box from 10 to 20 is returned for
  the rectangle from 20 to 30, although its right edge is not greater than the rectangle's left.
\<close>

theorem getElementsInRectangle_touching:
  "plain_box ''a'' 10 0 10 10 \<in> set (getElementsInRectangle touching_store 20 0 10 10) \<and>
   \<not> overlaps (plain_box ''a'' 10 0 10 10) 20 0 (20 + 10) (0 + 10)"
  by (simp add: touching_store_def addElement_def new_store_def notifyChange_def
      getElementsInRectangle_def overlaps_def plain_box_def Let_def)

section \<open>Links between viewports\<close>

lemma three_canvases_eq:
  "three_canvases =
     \<lparr>grid = [((0, 0), ''c1''), ((0, 5), ''c10''), ((0, 6), ''c2'')],
      canvasPositions =
        [(''c1'', \<lparr>row = 0, col = 0\<rparr>), (''c10'', \<lparr>row = 0, col = 5\<rparr>),
         (''c2'', \<lparr>row = 0, col = 6\<rparr>)],
      linkStates = [(''c10-c2'', True)]\<rparr>"
  by (simp add: three_canvases_def addCanvas_def new_grid_manager_def createAdjacentLinks_def
      getAdjacentCanvases_def directions_def getCanvasAt_def getLinkKey_def Map_has_def)

text \<open>
  C8.  \<^verbatim>\<open>toggleLink(a, b)\<close> returns the negation of what \<^verbatim>\<open>areCanvasesLinked(a, b)\<close> gave
  before the call, \<^verbatim>\<open>areCanvasesLinked(a, b)\<close> gives the returned value after it, and after two
  calls in a row \<^verbatim>\<open>areCanvasesLinked\<close> answers for every pair what it answered at the start.
\<close>

theorem toggleLink_flips:
  "fst (toggleLink g a b) = (\<not> areCanvasesLinked g a b) \<and>
   areCanvasesLinked (snd (toggleLink g a b)) a b = fst (toggleLink g a b) \<and>
   areCanvasesLinked (snd (toggleLink (snd (toggleLink g a b)) a b)) c d =
     areCanvasesLinked g c d"
  by (simp add: toggleLink_def areCanvasesLinked_def linkState_or_false_def Let_def
      AList.update_conv' split: option.splits)

text \<open>
  C4, as the code has it.  For a pair of ids with no entry under its key,
  \<^verbatim>\<open>areCanvasesLinked\<close> returns \<^verbatim>\<open>false\<close> (\<^verbatim>\<open>this.linkStates.get(key) || false\<close>).
\<close>

theorem unrecorded_pair_not_linked:
  "map_of (linkStates g) (getLinkKey a b) = None \<Longrightarrow> areCanvasesLinked g a b = False"
  by (simp add: areCanvasesLinked_def linkState_or_false_def)

theorem unrecorded_pair_not_linked_witness:
  "map_of (linkStates new_grid_manager) (getLinkKey ''a'' ''b'') = None \<and>
   areCanvasesLinked new_grid_manager ''a'' ''b'' = False"
proof -
  have h: "map_of (linkStates new_grid_manager) (getLinkKey ''a'' ''b'') = None"
    by (simp add: new_grid_manager_def)
  show ?thesis using h unrecorded_pair_not_linked [OF h] by simp
qed

text \<open>
  C4 as stated fails: the viewports \<open>c1\<close> and \<open>c10\<close> are placed five columns apart, no link
  entry is recorded for them, and \<^verbatim>\<open>areCanvasesLinked\<close> says \<^verbatim>\<open>false\<close>.
\<close>

theorem unrecorded_pair_reads_false:
  "map_of (linkStates three_canvases) (getLinkKey ''c1'' ''c10'') = None \<and>
   \<not> areCanvasesLinked three_canvases ''c1'' ''c10''"
  by (simp add: three_canvases_eq getLinkKey_def areCanvasesLinked_def linkState_or_false_def)

text \<open>
  C7.  \<^verbatim>\<open>removeCanvasLinks\<close> drops every key that contains the removed id as a substring.
  Removing \<open>c1\<close> therefore also drops the entry of the pair \<open>c10\<close>, \<open>c2\<close>, whose key
  \<open>c10-c2\<close> contains \<open>c1\<close>: the pair was linked before and is not afterwards, though neither
  viewport is the removed one.
\<close>

theorem removeCanvas_drops_unrelated_link:
  "map_of (linkStates three_canvases) (getLinkKey ''c10'' ''c2'') = Some True \<and>
   areCanvasesLinked three_canvases ''c10'' ''c2'' \<and>
   map_of (linkStates (removeCanvas three_canvases ''c1'')) (getLinkKey ''c10'' ''c2'') = None \<and>
   \<not> areCanvasesLinked (removeCanvas three_canvases ''c1'') ''c10'' ''c2'' \<and>
   getCanvasPosition (removeCanvas three_canvases ''c1'') ''c1'' = None"
  by (simp add: three_canvases_eq removeCanvas_def removeCanvasLinks_def getLinkKey_def
      areCanvasesLinked_def linkState_or_false_def getCanvasPosition_def)

text \<open>
  What \<^verbatim>\<open>removeCanvas\<close> does keep: the entry of every key that does not contain the removed
  id.
\<close>

lemma map_of_fold_delete:
  "map_of (fold AList.delete ks al) k = (if k \<in> set ks then None else map_of al k)"
  by (induction ks arbitrary: al) (simp_all add: AList.delete_conv')

lemma removeCanvas_keeps_other_keys:
  "\<not> String_includes key v \<Longrightarrow>
     map_of (linkStates (removeCanvas g v)) key = map_of (linkStates g) key"
  by (simp add: removeCanvas_def removeCanvasLinks_def map_of_fold_delete split: option.splits)

section \<open>Change notifications\<close>

text \<open>The listeners stay a set: \<^verbatim>\<open>subscribe\<close> and \<^verbatim>\<open>unsubscribe\<close> keep them distinct.\<close>

lemma subscribe_distinct:
  "distinct (changeListeners s) \<Longrightarrow>
     distinct (changeListeners (subscribe s l)) \<and> distinct (changeListeners (unsubscribe s l))"
  by (simp add: subscribe_def unsubscribe_def Set_add_def Set_delete_def distinct_removeAll)


lemma calls_to_append: "calls_to l (xs @ ys) = calls_to l xs @ calls_to l ys"
  by (simp add: calls_to_def)

lemma calls_to_others:
  "l \<notin> set ls \<Longrightarrow> calls_to l (map (\<lambda>callback. ListenerCalled callback c) ls) = []"
  by (induction ls) (auto simp: calls_to_def)

lemma calls_to_listeners:
  "distinct ls \<Longrightarrow> l \<in> set ls \<Longrightarrow>
     calls_to l (map (\<lambda>callback. ListenerCalled callback c) ls) = [c]"
proof (induction ls)
  case Nil
  then show ?case by simp
next
  case (Cons a ls)
  show ?case
  proof (cases "a = l")
    case True
    with Cons.prems have "l \<notin> set ls" by simp
    then have "calls_to l (map (\<lambda>callback. ListenerCalled callback c) ls) = []"
      by (rule calls_to_others)
    with True show ?thesis
      using calls_to_append [of l "[ListenerCalled a c]" "map (\<lambda>callback. ListenerCalled callback c) ls"]
      by (simp add: calls_to_def)
  next
    case False
    with Cons have "calls_to l (map (\<lambda>callback. ListenerCalled callback c) ls) = [c]" by simp
    with False show ?thesis
      using calls_to_append [of l "[ListenerCalled a c]" "map (\<lambda>callback. ListenerCalled callback c) ls"]
      by (simp add: calls_to_def)
  qed
qed

lemma calls_to_sync: "calls_to l (if b then [SyncManagerNotified] else []) = []"
  by (simp add: calls_to_def)

lemma notifyChange_once:
  assumes "distinct (changeListeners s)" and "trace s = trace s0"
  shows "notified_once s0 (notifyChange s)"
proof -
  have c: "contents (notifyChange s) = contents s"
    by (simp add: notifyChange_def contents_def)
  have l: "changeListeners (notifyChange s) = changeListeners s"
    by (simp add: notifyChange_def)
  have t: "trace (notifyChange s) = trace s0
          @ (map (\<lambda>callback. ListenerCalled callback (contents s)) (changeListeners s)
          @ (if window_canvasSyncManager s then [SyncManagerNotified] else []))"
    using assms(2) by (simp add: notifyChange_def)
  have "calls_to k (map (\<lambda>callback. ListenerCalled callback (contents s)) (changeListeners s)
          @ (if window_canvasSyncManager s then [SyncManagerNotified] else [])) = [contents s]"
    if "k \<in> set (changeListeners s)" for k
  proof -
    from assms(1) that
    have "calls_to k (map (\<lambda>callback. ListenerCalled callback (contents s)) (changeListeners s))
            = [contents s]"
      by (rule calls_to_listeners)
    then show ?thesis
      by (simp only: calls_to_append calls_to_sync) simp
  qed
  then show ?thesis
    unfolding notified_once_def c l t by simp
qed

text \<open>
  C1, as the code has it.  In a store whose listeners are a set, \<^verbatim>\<open>addElement\<close>,
  \<^verbatim>\<open>removeElement\<close> and \<^verbatim>\<open>updateElement\<close> of a present id, \<^verbatim>\<open>addToSelection\<close>,
  \<^verbatim>\<open>removeFromSelection\<close> and \<^verbatim>\<open>clearSelection\<close> each call every subscriber exactly once,
  after the mutation (the subscriber sees the new contents).  \<^verbatim>\<open>setSelectedElement\<close> calls
  nobody.
\<close>

theorem change_notifications:
  assumes "distinct (changeListeners s)"
  shows "notified_once s (addElement s e) \<and>
    (map_of (elements s) i \<noteq> None \<longrightarrow>
       notified_once s (removeElement s i) \<and> notified_once s (updateElement s i updates)) \<and>
    notified_once s (addToSelection s j) \<and>
    notified_once s (removeFromSelection s j) \<and>
    notified_once s (clearSelection s) \<and>
    trace (setSelectedElement s sel) = trace s"
proof -
  have 1: "notified_once s (addElement s e)"
    unfolding addElement_def by (rule notifyChange_once) (simp_all add: assms)
  have 2: "notified_once s (removeElement s i)" if "map_of (elements s) i \<noteq> None"
    using that unfolding removeElement_def Map_has_def Let_def
    by (auto intro!: notifyChange_once simp: assms)
  have 3: "notified_once s (updateElement s i updates)" if "map_of (elements s) i \<noteq> None"
    using that unfolding updateElement_def
    by (auto intro!: notifyChange_once simp: assms)
  have 4: "notified_once s (addToSelection s j)"
    unfolding addToSelection_def by (rule notifyChange_once) (simp_all add: assms)
  have 5: "notified_once s (removeFromSelection s j)"
    unfolding removeFromSelection_def by (rule notifyChange_once) (simp_all add: assms)
  have 6: "notified_once s (clearSelection s)"
    unfolding clearSelection_def by (rule notifyChange_once) (simp_all add: assms)
  show ?thesis using 1 2 3 4 5 6 by (simp add: setSelectedElement_def)
qed

theorem change_notifications_witness:
  "distinct (changeListeners example_store) \<and> 7 \<in> set (changeListeners example_store) \<and>
   map_of (elements example_store) ''a'' \<noteq> None \<and>
   notified_once example_store (addElement example_store (plain_box ''b'' 50 0 10 10)) \<and>
   notified_once example_store (removeElement example_store ''a'') \<and>
   notified_once example_store (updateElement example_store ''a'' [Assign_x 5]) \<and>
   notified_once example_store (addToSelection example_store ''a'') \<and>
   notified_once example_store (removeFromSelection example_store ''a'') \<and>
   notified_once example_store (clearSelection example_store) \<and>
   trace (setSelectedElement example_store None) = trace example_store"
proof -
  have d: "distinct (changeListeners example_store)"
    by (simp add: example_store_eq)
  have m: "7 \<in> set (changeListeners example_store)"
    by (simp add: example_store_eq)
  have p: "map_of (elements example_store) ''a'' \<noteq> None"
    by (simp add: example_store_eq)
  show ?thesis
    using d m p
      change_notifications [OF d, of "plain_box ''b'' 50 0 10 10" "''a''" "[Assign_x 5]" "''a''" None]
    by simp
qed

text \<open>
  C1 as stated fails: the example store has the subscriber 7, and \<^verbatim>\<open>setSelectedElement\<close>,
  \<^verbatim>\<open>clearAll\<close> and \<^verbatim>\<open>moveElementToFront\<close> leave the trace as it was.
\<close>

theorem silent_operations:
  "changeListeners example_store = [7] \<and>
   trace (setSelectedElement example_store None) = trace example_store \<and>
   trace (clearAll example_store) = trace example_store \<and>
   trace (moveElementToFront example_store ''a'') = trace example_store \<and>
   \<not> notified_once example_store (setSelectedElement example_store None)"
  by (simp add: example_store_eq notified_once_def setSelectedElement_def clearAll_def
      moveElementToFront_def calls_to_def)

section \<open>Primary selection and multi-selection\<close>

text \<open>
  C9, as the code has it.  \<^verbatim>\<open>clearSelection\<close> empties the primary selection and the
  multi-selection set.  The two are otherwise kept apart: \<^verbatim>\<open>setSelectedElement\<close> leaves the
  set as it is and \<^verbatim>\<open>addToSelection\<close> leaves the primary selection as it is.
\<close>

theorem selection_setters:
  "selectedElementId (clearSelection s) = None \<and>
   selectedElementIds (clearSelection s) = [] \<and>
   selectedElementIds (setSelectedElement s sel) = selectedElementIds s \<and>
   selectedElementId (addToSelection s j) = selectedElementId s"
  by (simp add: clearSelection_def setSelectedElement_def addToSelection_def notifyChange_def)

text \<open>
  C9 as stated fails: after a click on \<open>a\<close> and a shift-click on \<open>b\<close> the primary selection
  is \<open>a\<close>, the multi-selection set is not empty, and \<open>a\<close> is not in it.
\<close>

theorem primary_outside_multi_selection:
  "selectedElementId shift_click_store = Some ''a'' \<and>
   selectedElementIds shift_click_store = [''b''] \<and>
   ''a'' \<notin> set (selectedElementIds shift_click_store)"
  by (simp add: shift_click_store_def addToSelection_def setSelectedElement_def
      clearSelection_def addElement_def new_store_def notifyChange_def Set_add_def)

section \<open>Recalculating the offsets\<close>

lemma setOffset_eq: "setOffset cm ox oy = \<lparr>cm_offsetX = ox, cm_offsetY = oy\<rparr>"
  by (simp add: setOffset_def)

lemma recalculate_one_frame:
  "gridManager (recalculate_one e m) = gridManager m"
  "currentResolution (recalculate_one e m) = currentResolution m"
  by (auto simp: recalculate_one_def Let_def split: prod.splits option.splits)

lemma fold_frame:
  "gridManager (fold recalculate_one es m) = gridManager m \<and>
   currentResolution (fold recalculate_one es m) = currentResolution m"
  by (induction es arbitrary: m) (simp_all add: recalculate_one_frame)

lemma recalculate_one_canvases:
  "map_of (canvases (recalculate_one e m)) cid =
     (case getCanvasPosition (gridManager m) (fst e) of
        Some pos \<Rightarrow> if cid = fst e
           then Some \<lparr>cm_offsetX = fst (target_offset m pos), cm_offsetY = snd (target_offset m pos)\<rparr>
           else map_of (canvases m) cid
      | None \<Rightarrow> map_of (canvases m) cid)"
  by (auto simp: recalculate_one_def Let_def AList.update_conv' setOffset_eq target_offset_def
      split: prod.splits option.splits)

lemma recalculate_one_data:
  "map_of (canvasDataMap (recalculate_one e m)) cid =
     (case getCanvasPosition (gridManager m) (fst e) of
        Some pos \<Rightarrow> if cid = fst e
           then map_option (place_data (target_offset m pos)) (map_of (canvasDataMap m) cid)
           else map_of (canvasDataMap m) cid
      | None \<Rightarrow> map_of (canvasDataMap m) cid)"
  by (auto simp: recalculate_one_def Let_def AList.update_conv' place_data_def target_offset_def
      split: prod.splits option.splits)

lemma target_offset_cong:
  "gridManager m' = gridManager m \<Longrightarrow> currentResolution m' = currentResolution m \<Longrightarrow>
   target_offset m' = target_offset m"
  by (simp add: target_offset_def fun_eq_iff)

lemma fold_canvases:
  "map_of (canvases (fold recalculate_one es m)) cid =
     (case getCanvasPosition (gridManager m) cid of
        Some pos \<Rightarrow> if cid \<in> fst ` set es
           then Some \<lparr>cm_offsetX = fst (target_offset m pos), cm_offsetY = snd (target_offset m pos)\<rparr>
           else map_of (canvases m) cid
      | None \<Rightarrow> map_of (canvases m) cid)"
proof (induction es arbitrary: m)
  case Nil
  then show ?case by (simp split: option.splits)
next
  case (Cons e es)
  have t: "target_offset (recalculate_one e m) = target_offset m"
    by (rule target_offset_cong) (simp_all add: recalculate_one_frame)
  show ?case
    by (simp add: Cons.IH recalculate_one_frame t recalculate_one_canvases split: option.splits)
qed

lemma place_data_idem: "place_data off (place_data off cd) = place_data off cd"
  by (simp add: place_data_def)

lemma fold_data:
  "map_of (canvasDataMap (fold recalculate_one es m)) cid =
     (case getCanvasPosition (gridManager m) cid of
        Some pos \<Rightarrow> if cid \<in> fst ` set es
           then map_option (place_data (target_offset m pos)) (map_of (canvasDataMap m) cid)
           else map_of (canvasDataMap m) cid
      | None \<Rightarrow> map_of (canvasDataMap m) cid)"
proof (induction es arbitrary: m)
  case Nil
  then show ?case by (simp split: option.splits)
next
  case (Cons e es)
  have t: "target_offset (recalculate_one e m) = target_offset m"
    by (rule target_offset_cong) (simp_all add: recalculate_one_frame)
  show ?case
    by (simp add: Cons.IH recalculate_one_frame t recalculate_one_data option.map_comp comp_def
        place_data_idem split: option.splits)
qed

lemma recalculate_one_settled:
  assumes "settled_at m (fst e)"
  shows "recalculate_one e m = m"
proof (cases "getCanvasPosition (gridManager m) (fst e)")
  case None
  then show ?thesis by (cases e) (simp add: recalculate_one_def)
next
  case (Some pos)
  obtain cid cm where e: "e = (cid, cm)" by (cases e)
  from assms Some e have c: "map_of (canvases m) cid =
      Some \<lparr>cm_offsetX = fst (target_offset m pos), cm_offsetY = snd (target_offset m pos)\<rparr>"
    by (simp add: settled_at_def)
  have u: "AList.update cid (setOffset cm (fst (target_offset m pos)) (snd (target_offset m pos)))
             (canvases m) = canvases m"
    using c by (simp add: setOffset_eq AList.update_triv)
  show ?thesis
  proof (cases "map_of (canvasDataMap m) cid")
    case None
    with Some e u show ?thesis
      by (simp add: recalculate_one_def Let_def target_offset_def)
  next
    case (Some cd)
    with assms \<open>getCanvasPosition (gridManager m) (fst e) = Some pos\<close> e
    have "place_data (target_offset m pos) cd = cd" by (simp add: settled_at_def)
    then have "AList.update cid (place_data (target_offset m pos) cd) (canvasDataMap m) = canvasDataMap m"
      using Some by (simp add: AList.update_triv)
    with Some \<open>getCanvasPosition (gridManager m) (fst e) = Some pos\<close> e u show ?thesis
      by (simp add: recalculate_one_def Let_def target_offset_def place_data_def)
  qed
qed

lemma fold_settled:
  "\<forall>e \<in> set es. settled_at m (fst e) \<Longrightarrow> fold recalculate_one es m = m"
  by (induction es) (simp_all add: recalculate_one_settled)

lemma recalculateOffsets_settled:
  assumes "cid \<in> fst ` set (canvases m)"
  shows "settled_at (recalculateOffsets m) cid"
proof -
  let ?m' = "recalculateOffsets m"
  have t: "target_offset ?m' = target_offset m"
    unfolding recalculateOffsets_def by (rule target_offset_cong) (simp_all add: fold_frame)
  have g: "gridManager ?m' = gridManager m"
    unfolding recalculateOffsets_def by (simp add: fold_frame)
  show ?thesis
    using assms unfolding settled_at_def g t
    by (simp add: recalculateOffsets_def fold_canvases fold_data place_data_idem
        split: option.splits)
qed

lemma keys_recalculateOffsets:
  "fst ` set (canvases (recalculateOffsets m)) = fst ` set (canvases m)"
proof -
  have "dom (map_of (canvases (recalculateOffsets m))) = dom (map_of (canvases m))"
    by (auto simp: recalculateOffsets_def fold_canvases dom_def dom_map_of_conv_image_fst [symmetric] split: option.splits if_splits)
  then show ?thesis by (simp add: dom_map_of_conv_image_fst)
qed

lemma recalculateOffsets_idem:
  "recalculateOffsets (recalculateOffsets m) = recalculateOffsets m"
proof -
  have "\<forall>e \<in> set (canvases (recalculateOffsets m)). settled_at (recalculateOffsets m) (fst e)"
  proof
    fix e assume "e \<in> set (canvases (recalculateOffsets m))"
    then have "fst e \<in> fst ` set (canvases (recalculateOffsets m))" by simp
    then have "fst e \<in> fst ` set (canvases m)" by (simp only: keys_recalculateOffsets)
    then show "settled_at (recalculateOffsets m) (fst e)" by (rule recalculateOffsets_settled)
  qed
  then show ?thesis
    using fold_settled [of "canvases (recalculateOffsets m)" "recalculateOffsets m"]
    by (simp add: recalculateOffsets_def)
qed

lemma two_viewports_eq:
  "two_viewports =
     \<lparr>canvases = [(''v1'', \<lparr>cm_offsetX = 0, cm_offsetY = 0\<rparr>),
                  (''v2'', \<lparr>cm_offsetX = 5, cm_offsetY = 7\<rparr>)],
      canvasDataMap =
        [(''v1'', \<lparr>cd_id = ''v1'', cd_name = ''1'', cd_width = 800, cd_height = 600,
                   cd_offsetX = 0, cd_offsetY = 0\<rparr>),
         (''v2'', \<lparr>cd_id = ''v2'', cd_name = ''2'', cd_width = 800, cd_height = 600,
                   cd_offsetX = 5, cd_offsetY = 7\<rparr>)],
      gridManager =
        \<lparr>grid = [((0, 0), ''v1''), ((1, 2), ''v2'')],
         canvasPositions = [(''v1'', \<lparr>row = 0, col = 0\<rparr>), (''v2'', \<lparr>row = 1, col = 2\<rparr>)],
         linkStates = []\<rparr>,
      currentResolution = \<lparr>res_width = 800, res_height = 600\<rparr>\<rparr>"
  by (simp add: two_viewports_def addCanvas_def new_grid_manager_def createAdjacentLinks_def
      getAdjacentCanvases_def directions_def getCanvasAt_def)

lemma two_viewports_recalculated:
  "recalculateOffsets two_viewports =
     \<lparr>canvases = [(''v1'', \<lparr>cm_offsetX = 0, cm_offsetY = 0\<rparr>),
                  (''v2'', \<lparr>cm_offsetX = 1600, cm_offsetY = 600\<rparr>)],
      canvasDataMap =
        [(''v1'', \<lparr>cd_id = ''v1'', cd_name = ''1'', cd_width = 800, cd_height = 600,
                   cd_offsetX = 0, cd_offsetY = 0\<rparr>),
         (''v2'', \<lparr>cd_id = ''v2'', cd_name = ''2'', cd_width = 800, cd_height = 600,
                   cd_offsetX = 1600, cd_offsetY = 600\<rparr>)],
      gridManager =
        \<lparr>grid = [((0, 0), ''v1''), ((1, 2), ''v2'')],
         canvasPositions = [(''v1'', \<lparr>row = 0, col = 0\<rparr>), (''v2'', \<lparr>row = 1, col = 2\<rparr>)],
         linkStates = []\<rparr>,
      currentResolution = \<lparr>res_width = 800, res_height = 600\<rparr>\<rparr>"
  by (simp add: two_viewports_eq recalculateOffsets_def recalculate_one_def
      getCanvasPosition_def setOffset_def Let_def)

text \<open>
  C6.  After \<^verbatim>\<open>recalculateOffsets\<close>, for every viewport id with a grid cell, the manager held
  under that id has the offset (column times shared width, row times shared height), and so
  has the \<^verbatim>\<open>CanvasData\<close> of every viewport of \<^verbatim>\<open>canvases\<close>; grid and resolution are untouched;
  running it a second time returns the same state.
\<close>

theorem recalculateOffsets_correct:
  "(map_of (canvases (recalculateOffsets m)) cid = Some cm \<longrightarrow>
      getCanvasPosition (gridManager m) cid = Some pos \<longrightarrow>
      cm_offsetX cm = real_of_int (col pos) * res_width (currentResolution m) \<and>
      cm_offsetY cm = real_of_int (row pos) * res_height (currentResolution m)) \<and>
   (map_of (canvases m) cid \<noteq> None \<longrightarrow>
      map_of (canvasDataMap (recalculateOffsets m)) cid = Some cd \<longrightarrow>
      getCanvasPosition (gridManager m) cid = Some pos \<longrightarrow>
      cd_offsetX cd = real_of_int (col pos) * res_width (currentResolution m) \<and>
      cd_offsetY cd = real_of_int (row pos) * res_height (currentResolution m)) \<and>
   gridManager (recalculateOffsets m) = gridManager m \<and>
   currentResolution (recalculateOffsets m) = currentResolution m \<and>
   recalculateOffsets (recalculateOffsets m) = recalculateOffsets m"
proof -
  have k: "map_of (canvases (recalculateOffsets m)) cid = Some cm \<Longrightarrow>
        cid \<in> fst ` set (canvases m)"
    using keys_recalculateOffsets [of m] map_of_SomeD [of "canvases (recalculateOffsets m)" cid cm]
    by force
  have 1: "cm_offsetX cm = real_of_int (col pos) * res_width (currentResolution m) \<and>
      cm_offsetY cm = real_of_int (row pos) * res_height (currentResolution m)"
    if "map_of (canvases (recalculateOffsets m)) cid = Some cm"
      and "getCanvasPosition (gridManager m) cid = Some pos"
    using that k [OF that(1)]
    by (auto simp: recalculateOffsets_def fold_canvases target_offset_def)
  have 2: "cd_offsetX cd = real_of_int (col pos) * res_width (currentResolution m) \<and>
      cd_offsetY cd = real_of_int (row pos) * res_height (currentResolution m)"
    if "map_of (canvases m) cid \<noteq> None"
      and "map_of (canvasDataMap (recalculateOffsets m)) cid = Some cd"
      and "getCanvasPosition (gridManager m) cid = Some pos"
  proof -
    from that(1) have "cid \<in> fst ` set (canvases m)"
      by (auto simp: dom_map_of_conv_image_fst [symmetric])
    with that(2,3) show ?thesis
      by (auto simp: recalculateOffsets_def fold_data target_offset_def place_data_def)
  qed
  show ?thesis
    using 1 2 recalculateOffsets_idem [of m] fold_frame [of "canvases m" m]
    by (simp add: recalculateOffsets_def)
qed

theorem recalculateOffsets_correct_witness:
  "map_of (canvases (recalculateOffsets two_viewports)) ''v2''
     = Some \<lparr>cm_offsetX = 1600, cm_offsetY = 600\<rparr> \<and>
   getCanvasPosition (gridManager two_viewports) ''v2'' = Some \<lparr>row = 1, col = 2\<rparr> \<and>
   map_of (canvases two_viewports) ''v2'' \<noteq> None \<and>
   map_of (canvasDataMap (recalculateOffsets two_viewports)) ''v2''
     = Some \<lparr>cd_id = ''v2'', cd_name = ''2'', cd_width = 800, cd_height = 600,
             cd_offsetX = 1600, cd_offsetY = 600\<rparr> \<and>
   (1600 :: real) = real_of_int 2 * res_width (currentResolution two_viewports) \<and>
   (600 :: real) = real_of_int 1 * res_height (currentResolution two_viewports) \<and>
   recalculateOffsets (recalculateOffsets two_viewports) = recalculateOffsets two_viewports"
proof -
  have a: "map_of (canvases (recalculateOffsets two_viewports)) ''v2''
     = Some \<lparr>cm_offsetX = 1600, cm_offsetY = 600\<rparr>"
    by (simp add: two_viewports_recalculated)
  have b: "getCanvasPosition (gridManager two_viewports) ''v2'' = Some \<lparr>row = 1, col = 2\<rparr>"
    by (simp add: two_viewports_eq getCanvasPosition_def)
  have c: "map_of (canvases two_viewports) ''v2'' \<noteq> None"
    by (simp add: two_viewports_eq)
  have d: "map_of (canvasDataMap (recalculateOffsets two_viewports)) ''v2''
     = Some \<lparr>cd_id = ''v2'', cd_name = ''2'', cd_width = 800, cd_height = 600,
             cd_offsetX = 1600, cd_offsetY = 600\<rparr>"
    by (simp add: two_viewports_recalculated)
  show ?thesis
    using a b c d
      recalculateOffsets_correct [of two_viewports "''v2''"
        "\<lparr>cm_offsetX = 1600, cm_offsetY = 600\<rparr>" "\<lparr>row = 1, col = 2\<rparr>"
        "\<lparr>cd_id = ''v2'', cd_name = ''2'', cd_width = 800, cd_height = 600,
          cd_offsetX = 1600, cd_offsetY = 600\<rparr>"]
    by simp
qed
end
